theory Spec2Isabelle
  imports Complex_Main
begin

section \<open>Configuration (config/settings.py)\<close>

text \<open>
  Exceptions are values. \<open>ValidationError\<close> is what pydantic raises for a field outside
  its declared range, \<open>ZeroDivisionError\<close> and \<open>IndexError\<close> are Python's own, and
  \<open>CvError\<close> stands for anything an OpenCV call rejects.
\<close>

datatype error = ValidationError | ZeroDivisionError | IndexError | CvError

text \<open>
  The fields of \<open>Settings\<close>, in the order of the class. Python's \<open>float\<close> fields are
  modelled as exact rationals: the arithmetic of the model is the arithmetic of the
  formulas, without IEEE rounding.
\<close>

record Settings =
  back_threshold :: int
  threshold :: int
  min_diameter :: int
  peaks_rel_threshold :: rat
  gaussian_kernel_size :: int
  clahe_clip_limit :: rat
  clahe_tile_size :: int
  morphology_kernel_size :: int
  center_color :: "int \<times> int \<times> int"
  radius1_color :: "int \<times> int \<times> int"
  radius2_color :: "int \<times> int \<times> int"
  line_thickness :: int

text \<open>The \<open>ge\<close>/\<open>le\<close> bounds of the \<open>Field\<close> declarations. \<open>gaussian_kernel_size\<close> and
  the three colours declare none.\<close>

definition field_constraints :: "Settings \<Rightarrow> bool" where
  "field_constraints c \<longleftrightarrow>
     0 \<le> back_threshold c \<and> back_threshold c \<le> 255 \<and>
     0 \<le> threshold c \<and> threshold c \<le> 255 \<and>
     1 \<le> min_diameter c \<and>
     0 \<le> peaks_rel_threshold c \<and> peaks_rel_threshold c \<le> 1 \<and>
     0 \<le> clahe_clip_limit c \<and>
     1 \<le> clahe_tile_size c \<and>
     1 \<le> morphology_kernel_size c \<and>
     1 \<le> line_thickness c"

text \<open>\<open>validate_odd_kernel_size\<close>: Python's \<open>%\<close> with a positive divisor is HOL's \<open>mod\<close>
  on \<open>int\<close> (the result is never negative).\<close>

definition validate_odd_kernel_size :: "int \<Rightarrow> int" where
  "validate_odd_kernel_size v = (if v mod 2 = 0 then v + 1 else v)"

text \<open>
  Constructing \<open>Settings\<close> from configured values: the field bounds are checked first,
  then the field validator (an after-validator) rewrites the two kernel sizes.
\<close>

definition construct_settings :: "Settings \<Rightarrow> error + Settings" where
  "construct_settings c =
     (if field_constraints c
      then Inr (c\<lparr>gaussian_kernel_size := validate_odd_kernel_size (gaussian_kernel_size c),
                  morphology_kernel_size := validate_odd_kernel_size (morphology_kernel_size c)\<rparr>)
      else Inl ValidationError)"

text \<open>The defaults of the \<open>Field\<close> declarations.\<close>

definition default_settings :: Settings where
  "default_settings =
     \<lparr>back_threshold = 100, threshold = 150, min_diameter = 30, peaks_rel_threshold = 1 / 10,
      gaussian_kernel_size = 5, clahe_clip_limit = 2, clahe_tile_size = 8,
      morphology_kernel_size = 3, center_color = (255, 0, 0), radius1_color = (0, 255, 0),
      radius2_color = (0, 0, 255), line_thickness = 2\<rparr>"

section \<open>Images, distance maps, peaks, circles\<close>

type_synonym image = "nat list list"
type_synonym bgr_image = "(nat \<times> nat \<times> nat) list list"
type_synonym distance_map = "rat list list"
type_synonym peak = "int \<times> int"
type_synonym circle = "int \<times> int \<times> int \<times> int"

text \<open>\<open>int(...)\<close> of a Python float truncates toward zero.\<close>

definition py_int :: "rat \<Rightarrow> int" where
  "py_int q = (if 0 \<le> q then \<lfloor>q\<rfloor> else \<lceil>q\<rceil>)"

text \<open>\<open>a / b\<close> on Python ints: true division, \<open>ZeroDivisionError\<close> when \<open>b\<close> is zero.\<close>

definition py_truediv :: "int \<Rightarrow> int \<Rightarrow> error + rat" where
  "py_truediv a b = (if b = 0 then Inl ZeroDivisionError else Inr (of_int a / of_int b))"

text \<open>An index along an axis of length \<open>n\<close>: numpy counts a negative index from the end
  and raises \<open>IndexError\<close> outside \<open>-n \<le> i < n\<close>.\<close>

definition np_index :: "nat \<Rightarrow> int \<Rightarrow> error + nat" where
  "np_index n i =
     (if 0 \<le> i \<and> i < int n then Inr (nat i)
      else if - int n \<le> i \<and> i < 0 then Inr (nat (i + int n))
      else Inl IndexError)"

definition getitem2 :: "'a list list \<Rightarrow> int \<Rightarrow> int \<Rightarrow> error + 'a" where
  "getitem2 m y x =
     (case np_index (length m) y of
        Inl e \<Rightarrow> Inl e
      | Inr r \<Rightarrow>
          (case np_index (length (m ! r)) x of
             Inl e \<Rightarrow> Inl e
           | Inr c \<Rightarrow> Inr (m ! r ! c)))"

section \<open>The segmenter object (core/segmentation.py)\<close>

record CLAHE =
  clipLimit :: rat
  tileGridSize :: "int \<times> int"

record MushroomSegmenter =
  settings :: Settings
  clahe :: CLAHE

definition MushroomSegmenter_init :: "Settings \<Rightarrow> MushroomSegmenter" where
  "MushroomSegmenter_init s =
     \<lparr>settings = s,
      clahe = \<lparr>clipLimit = clahe_clip_limit s,
               tileGridSize = (clahe_tile_size s, clahe_tile_size s)\<rparr>\<rparr>"

subsection \<open>\<open>_extract_circles\<close>\<close>

text \<open>
  The body of the \<open>for peak in peaks\<close> loop, with the list \<open>circles\<close> as accumulator.
  \<open>coeff\<close> is computed before the loop and passed in. The raw map is read before the
  equalized one, and either read may raise.
\<close>

fun extract_loop ::
  "MushroomSegmenter \<Rightarrow> rat \<Rightarrow> distance_map \<Rightarrow> distance_map \<Rightarrow> peak list \<Rightarrow> circle list
     \<Rightarrow> error + circle list" where
  "extract_loop self coeff dist_map equalized_dist_map [] circles = Inr circles"
| "extract_loop self coeff dist_map equalized_dist_map ((y, x) # peaks) circles =
     (case getitem2 dist_map y x of
        Inl e \<Rightarrow> Inl e
      | Inr d1 \<Rightarrow>
          (case getitem2 equalized_dist_map y x of
             Inl e \<Rightarrow> Inl e
           | Inr d2 \<Rightarrow>
               (let radius1 = py_int (d1 * coeff);
                    radius2 = py_int (d2 * coeff)
                in if radius1 \<ge> min_diameter (settings self) div 2
                   then extract_loop self coeff dist_map equalized_dist_map peaks
                          (circles @ [(x, y, radius1, radius2)])
                   else extract_loop self coeff dist_map equalized_dist_map peaks circles)))"

text \<open>The compensation coefficient, \<open>coeff = 1 + (threshold - back_threshold) /
  (255 - back_threshold)\<close>, computed once before the loop.\<close>

definition compensation_coeff :: "MushroomSegmenter \<Rightarrow> error + rat" where
  "compensation_coeff self =
     (case py_truediv (threshold (settings self) - back_threshold (settings self))
                      (255 - back_threshold (settings self)) of
        Inl e \<Rightarrow> Inl e
      | Inr q \<Rightarrow> Inr (1 + q))"

definition extract_circles ::
  "MushroomSegmenter \<Rightarrow> peak list \<Rightarrow> distance_map \<Rightarrow> distance_map \<Rightarrow> error + circle list" where
  "extract_circles self peaks dist_map equalized_dist_map =
     (case compensation_coeff self of
        Inl e \<Rightarrow> Inl e
      | Inr coeff \<Rightarrow> extract_loop self coeff dist_map equalized_dist_map peaks [])"

section \<open>Library operations\<close>

text \<open>
  OpenCV, numpy and scikit-image are not part of the repository. The operations whose
  results the properties below depend on are modelled here from what \<open>spec.md\<close> says of
  them; the others (\<open>GaussianBlur\<close>, \<open>cvtColor\<close>, \<open>CLAHE.apply\<close>) are parameters,
  collected in the record \<open>cv2\<close>, and may fail.
\<close>

record cv2 =
  GaussianBlur :: "bgr_image \<Rightarrow> int \<times> int \<Rightarrow> rat \<Rightarrow> error + bgr_image"
  cvtColor_BGR2GRAY :: "bgr_image \<Rightarrow> error + image"
  CLAHE_apply :: "CLAHE \<Rightarrow> image \<Rightarrow> error + image"
  INIT_DIST :: rat

text \<open>
  Modelled from the spec: \<open>cv2.threshold\<close> with \<open>THRESH_BINARY\<close>, which is missing from
  src/. Section 4.2: "pixel > threshold \<rightarrow> 255, else 0", with 255 the \<open>maxval\<close> argument.
\<close>

definition cv_threshold :: "image \<Rightarrow> int \<Rightarrow> nat \<Rightarrow> image" where
  "cv_threshold src thresh maxval = map (map (\<lambda>v. if int v > thresh then maxval else 0)) src"

text \<open>
  Modelled from the spec: \<open>cv2.erode\<close>, \<open>cv2.dilate\<close> and \<open>cv2.morphologyEx\<close> with
  \<open>MORPH_OPEN\<close>, which are missing from src/. Section 4.2 and the glossary: a square
  structuring element of side \<open>k\<close> (\<open>np.ones((k, k))\<close>, represented by \<open>k\<close>), opening is
  erosion followed by dilation. Erosion takes the minimum and dilation the maximum over
  the part of the window, anchored at its centre, that lies inside the image. The window
  holds its centre whenever \<open>k \<ge> 1\<close>, which \<open>Settings\<close> enforces; the centre is the start
  value of the fold.
\<close>

definition kernel_window :: "int \<Rightarrow> image \<Rightarrow> nat \<Rightarrow> nat \<Rightarrow> nat list" where
  "kernel_window k img y x =
     [img ! nat yy ! nat xx.
        yy \<leftarrow> [int y - k div 2 .. int y - k div 2 + k - 1],
        0 \<le> yy \<and> yy < int (length img),
        xx \<leftarrow> [int x - k div 2 .. int x - k div 2 + k - 1],
        0 \<le> xx \<and> xx < int (length (img ! nat yy))]"

definition erode_once :: "int \<Rightarrow> image \<Rightarrow> image" where
  "erode_once k img =
     [[fold min (kernel_window k img y x) (img ! y ! x). x \<leftarrow> [0 ..< length (img ! y)]].
        y \<leftarrow> [0 ..< length img]]"

definition dilate_once :: "int \<Rightarrow> image \<Rightarrow> image" where
  "dilate_once k img =
     [[fold max (kernel_window k img y x) (img ! y ! x). x \<leftarrow> [0 ..< length (img ! y)]].
        y \<leftarrow> [0 ..< length img]]"

definition cv_erode :: "image \<Rightarrow> int \<Rightarrow> int \<Rightarrow> image" where
  "cv_erode src kernel' iterations = (erode_once kernel' ^^ nat iterations) src"

definition cv_dilate :: "image \<Rightarrow> int \<Rightarrow> int \<Rightarrow> image" where
  "cv_dilate src kernel' iterations = (dilate_once kernel' ^^ nat iterations) src"

definition cv_morphologyEx_OPEN :: "image \<Rightarrow> int \<Rightarrow> int \<Rightarrow> image" where
  "cv_morphologyEx_OPEN src kernel' iterations =
     cv_dilate (cv_erode src kernel' iterations) kernel' iterations"

text \<open>
  Modelled from the spec: \<open>cv2.bitwise_and(src1, src2, mask=mask)\<close>, which is missing
  from src/. Section 4.6: "bitwise AND of preprocessed image with the binary mask"; a
  pixel is kept where the mask is not zero and is zero elsewhere.
\<close>

definition cv_bitwise_and :: "image \<Rightarrow> image \<Rightarrow> image \<Rightarrow> image" where
  "cv_bitwise_and src1 src2 mask' =
     map (\<lambda>(r, ms). map (\<lambda>((a, b), m). if m \<noteq> 0 then and a b else 0) (zip r ms))
         (zip (map (\<lambda>(r1, r2). zip r1 r2) (zip src1 src2)) mask')"

text \<open>\<open>np.unique\<close>: the distinct values of the array (only their number is used).\<close>

definition np_unique :: "image \<Rightarrow> nat list" where
  "np_unique img = remdups (concat img)"

text \<open>
  Modelled from the spec: \<open>cv2.distanceTransform(binary, cv2.DIST_L2, 3)\<close>, which is
  missing from src/. Section 4.3: for every pixel the distance to the nearest zero-valued
  pixel, in the 3\<times>3-neighbourhood approximation (a horizontal or vertical step costs
  0.955, a diagonal step 1.3693). The spec does not say what a mask without any zero
  pixel yields; the model returns the parameter \<open>far\<close> there.
\<close>

definition zero_pixels :: "image \<Rightarrow> (int \<times> int) list" where
  "zero_pixels img =
     [(int y, int x). y \<leftarrow> [0 ..< length img], x \<leftarrow> [0 ..< length (img ! y)], img ! y ! x = 0]"

definition chamfer :: "int \<times> int \<Rightarrow> int \<times> int \<Rightarrow> rat" where
  "chamfer p q =
     (let dy = \<bar>fst p - fst q\<bar>; dx = \<bar>snd p - snd q\<bar>
      in (955 / 1000) * of_int (max dy dx - min dy dx) + (13693 / 10000) * of_int (min dy dx))"

definition nearest_zero :: "rat \<Rightarrow> image \<Rightarrow> int \<times> int \<Rightarrow> rat" where
  "nearest_zero far img p =
     (case map (chamfer p) (zero_pixels img) of
        [] \<Rightarrow> far
      | d # ds \<Rightarrow> fold min ds d)"

definition cv_distanceTransform :: "rat \<Rightarrow> image \<Rightarrow> distance_map" where
  "cv_distanceTransform far img =
     [[nearest_zero far img (int y, int x). x \<leftarrow> [0 ..< length (img ! y)]].
        y \<leftarrow> [0 ..< length img]]"

text \<open>
  Modelled from the spec: \<open>skimage.feature.corner_peaks\<close>, which is missing from src/.
  Section 4.4: a peak is a pixel that no pixel within \<open>min_distance\<close> exceeds and whose
  value is at least \<open>threshold_rel\<close> times the maximum of the map; among candidates
  within \<open>min_distance\<close> of each other (which then have equal values) the first in
  row-major scan order is kept and the others are suppressed; the output is in scan
  order; an all-zero map yields no peak.
\<close>

definition pixels :: "distance_map \<Rightarrow> (peak \<times> rat) list" where
  "pixels dm =
     [((int y, int x), dm ! y ! x). y \<leftarrow> [0 ..< length dm], x \<leftarrow> [0 ..< length (dm ! y)]]"

definition sqdist :: "peak \<Rightarrow> peak \<Rightarrow> int" where
  "sqdist p q = (fst p - fst q) * (fst p - fst q) + (snd p - snd q) * (snd p - snd q)"

text \<open>Euclidean distance below \<open>d\<close>, decided on the squares.\<close>

definition closer_than :: "int \<Rightarrow> peak \<Rightarrow> peak \<Rightarrow> bool" where
  "closer_than d p q \<longleftrightarrow> 0 < d \<and> sqdist p q < d * d"

definition map_max :: "distance_map \<Rightarrow> rat" where
  "map_max dm = (case concat dm of [] \<Rightarrow> 0 | v # vs \<Rightarrow> fold max vs v)"

definition is_candidate :: "distance_map \<Rightarrow> int \<Rightarrow> rat \<Rightarrow> peak \<times> rat \<Rightarrow> bool" where
  "is_candidate dm d rel pv \<longleftrightarrow>
     snd pv \<ge> rel * map_max dm \<and>
     (\<forall>qw \<in> set (pixels dm). closer_than d (fst pv) (fst qw) \<longrightarrow> snd qw \<le> snd pv)"

fun suppress :: "int \<Rightarrow> (peak \<times> rat) list \<Rightarrow> peak list \<Rightarrow> peak list" where
  "suppress d [] kept = kept"
| "suppress d ((p, v) # cs) kept =
     (if \<exists>q \<in> set kept. closer_than d p q
      then suppress d cs kept
      else suppress d cs (kept @ [p]))"

definition corner_peaks :: "distance_map \<Rightarrow> int \<Rightarrow> rat \<Rightarrow> peak list" where
  "corner_peaks dm min_distance threshold_rel =
     (if \<forall>v \<in> set (concat dm). v = 0 then []
      else suppress min_distance (filter (is_candidate dm min_distance threshold_rel) (pixels dm)) [])"

section \<open>The pipeline stages (core/segmentation.py)\<close>

definition preprocess_image :: "cv2 \<Rightarrow> MushroomSegmenter \<Rightarrow> bgr_image \<Rightarrow> error + image" where
  "preprocess_image cv self image' =
     (case GaussianBlur cv image'
             (gaussian_kernel_size (settings self), gaussian_kernel_size (settings self)) 0 of
        Inl e \<Rightarrow> Inl e
      | Inr blurred \<Rightarrow>
          (case cvtColor_BGR2GRAY cv blurred of
             Inl e \<Rightarrow> Inl e
           | Inr gray \<Rightarrow> CLAHE_apply cv (clahe self) gray))"

definition remove_background :: "MushroomSegmenter \<Rightarrow> image \<Rightarrow> image" where
  "remove_background self image' =
     (let binary = cv_threshold image' (back_threshold (settings self)) 255;
          kernel' = morphology_kernel_size (settings self);
          iterations = max 1 (min_diameter (settings self) div 3);
          opened = cv_morphologyEx_OPEN binary kernel' iterations;
          dilated = cv_dilate opened kernel' 5
      in dilated)"

text \<open>The image that \<open>_compute_distance_transform\<close> hands to \<open>cv2.distanceTransform\<close>.\<close>

definition binarized :: "MushroomSegmenter \<Rightarrow> image \<Rightarrow> image" where
  "binarized self image' =
     (if length (np_unique image') > 2
      then cv_threshold image' (threshold (settings self)) 255
      else image')"

definition compute_distance_transform :: "cv2 \<Rightarrow> MushroomSegmenter \<Rightarrow> image \<Rightarrow> distance_map" where
  "compute_distance_transform cv self image' =
     (let binary = binarized self image'
      in cv_distanceTransform (INIT_DIST cv) binary)"

definition find_local_maxima :: "MushroomSegmenter \<Rightarrow> distance_map \<Rightarrow> peak list" where
  "find_local_maxima self distance_map =
     corner_peaks distance_map (min_diameter (settings self)) (peaks_rel_threshold (settings self))"

definition segment :: "cv2 \<Rightarrow> MushroomSegmenter \<Rightarrow> bgr_image \<Rightarrow> error + circle list" where
  "segment cv self image' =
     (case preprocess_image cv self image' of
        Inl e \<Rightarrow> Inl e
      | Inr preprocessed \<Rightarrow>
          (let foreground_mask = remove_background self preprocessed;
               masked_image = cv_bitwise_and preprocessed preprocessed foreground_mask;
               dist_map = compute_distance_transform cv self masked_image
           in case CLAHE_apply cv (clahe self) masked_image of
                Inl e \<Rightarrow> Inl e
              | Inr equalized_image \<Rightarrow>
                  (let equalized_dist_map = compute_distance_transform cv self equalized_image;
                       peaks = find_local_maxima self equalized_dist_map
                   in extract_circles self peaks dist_map equalized_dist_map)))"

section \<open>The Circle Extractor as the specification words it\<close>

text \<open>A peak \<open>(y, x)\<close> lies inside a map: row \<open>y\<close> exists and has a column \<open>x\<close>.\<close>

definition in_map :: "'a list list \<Rightarrow> peak \<Rightarrow> bool" where
  "in_map m p \<longleftrightarrow>
     0 \<le> fst p \<and> fst p < int (length m) \<and> 0 \<le> snd p \<and> snd p < int (length (m ! nat (fst p)))"

definition value_at :: "distance_map \<Rightarrow> peak \<Rightarrow> rat" where
  "value_at m p = m ! nat (fst p) ! nat (snd p)"

text \<open>Section 4.5: \<open>coeff = 1 + (threshold - back_threshold) / (255 - back_threshold)\<close>.\<close>

definition spec_coeff :: "Settings \<Rightarrow> rat" where
  "spec_coeff s = 1 + of_int (threshold s - back_threshold s) / of_int (255 - back_threshold s)"




section \<open>Euclidean distance between peaks\<close>

definition euclid :: "peak \<Rightarrow> peak \<Rightarrow> real" where
  "euclid p q = sqrt (real_of_int (sqdist p q))"


section \<open>Example inputs\<close>


text \<open>Library parameters for the examples: blur and equalization leave the image as it is,
  the gray value is the first channel.\<close>

definition cv_plain :: cv2 where
  "cv_plain =
     \<lparr>GaussianBlur = (\<lambda>src ksize sigma. Inr src),
      cvtColor_BGR2GRAY = (\<lambda>src. Inr (map (map fst) src)),
      CLAHE_apply = (\<lambda>c src. Inr src),
      INIT_DIST = 8192\<rparr>"


definition dot_gray :: image where
  "dot_gray = [[0, 0, 0], [0, 200, 0], [0, 0, 0]]"



definition dot_settings :: Settings where
  "dot_settings = default_settings\<lparr>min_diameter := 2, morphology_kernel_size := 1\<rparr>"









text \<open>A one-row image with three intensity levels.\<close>

definition levels_image :: image where
  "levels_image = [[0, 100, 200]]"


text \<open>A one-row distance map with two maxima four pixels apart.\<close>

definition two_peaks_map :: distance_map where
  "two_peaks_map = [[1, 0, 0, 0, 1]]"

text \<open>A black image of one pixel, and the default configuration with
  \<open>back_threshold = 255\<close>, the upper end of its declared range.\<close>

definition black_image :: bgr_image where
  "black_image = [[(0, 0, 0)]]"

definition settings_255 :: Settings where
  "settings_255 = default_settings\<lparr>back_threshold := 255\<rparr>"

section \<open>Configuration construction\<close>

lemma validate_odd_kernel_size_even: "even v \<Longrightarrow> validate_odd_kernel_size v = v + 1"
  unfolding validate_odd_kernel_size_def by presburger

lemma validate_odd_kernel_size_odd: "odd v \<Longrightarrow> validate_odd_kernel_size v = v"
  unfolding validate_odd_kernel_size_def by presburger

lemma construct_default_with_back_threshold_255:
  "construct_settings (default_settings\<lparr>back_threshold := 255\<rparr>)
     = Inr (default_settings\<lparr>back_threshold := 255\<rparr>)"
  by (simp add: construct_settings_def field_constraints_def default_settings_def
                validate_odd_kernel_size_def)

text \<open>
  C9. Whenever a configuration is constructed, an even configured \<open>gaussian_kernel_size\<close>
  or \<open>morphology_kernel_size\<close> \<open>v\<close> is held as \<open>v + 1\<close> and an odd one is held unchanged.
\<close>

theorem odd_kernel_auto_adjust:
  assumes "construct_settings c = Inr s"
  shows "(even (gaussian_kernel_size c) \<longrightarrow> gaussian_kernel_size s = gaussian_kernel_size c + 1) \<and>
         (odd (gaussian_kernel_size c) \<longrightarrow> gaussian_kernel_size s = gaussian_kernel_size c) \<and>
         (even (morphology_kernel_size c) \<longrightarrow>
            morphology_kernel_size s = morphology_kernel_size c + 1) \<and>
         (odd (morphology_kernel_size c) \<longrightarrow> morphology_kernel_size s = morphology_kernel_size c)"
  using assms
  by (auto simp: construct_settings_def validate_odd_kernel_size_even validate_odd_kernel_size_odd
           split: if_splits)

theorem odd_kernel_auto_adjust_witness:
  "construct_settings (default_settings\<lparr>gaussian_kernel_size := 4, morphology_kernel_size := 7\<rparr>)
     = Inr (default_settings\<lparr>gaussian_kernel_size := 5, morphology_kernel_size := 7\<rparr>) \<and>
   gaussian_kernel_size (default_settings\<lparr>gaussian_kernel_size := 5, morphology_kernel_size := 7\<rparr>)
     = 4 + 1 \<and>
   morphology_kernel_size (default_settings\<lparr>gaussian_kernel_size := 5, morphology_kernel_size := 7\<rparr>)
     = 7"
proof -
  have c: "construct_settings
             (default_settings\<lparr>gaussian_kernel_size := 4, morphology_kernel_size := 7\<rparr>)
           = Inr (default_settings\<lparr>gaussian_kernel_size := 5, morphology_kernel_size := 7\<rparr>)"
    by (simp add: construct_settings_def field_constraints_def default_settings_def
                  validate_odd_kernel_size_def)
  from odd_kernel_auto_adjust [OF c] show ?thesis using c by simp
qed

section \<open>Division by zero at \<open>back_threshold = 255\<close>\<close>

lemma compensation_coeff_255:
  "back_threshold (settings self) = 255 \<Longrightarrow> compensation_coeff self = Inl ZeroDivisionError"
  by (simp add: compensation_coeff_def py_truediv_def)

lemma extract_circles_255:
  "back_threshold (settings self) = 255 \<Longrightarrow>
   extract_circles self peaks dm edm = Inl ZeroDivisionError"
  by (simp add: extract_circles_def compensation_coeff_255)

lemma segment_255:
  "back_threshold (settings self) = 255 \<Longrightarrow> \<exists>e. segment cv self img = Inl e"
  by (auto simp: segment_def Let_def extract_circles_255 split: sum.splits)

text \<open>
  C10. With \<open>back_threshold = 255\<close>, \<open>_extract_circles\<close> raises \<open>ZeroDivisionError\<close> for every
  peak sequence, the empty one included, and so \<open>segment\<close> fails on every image. The witness
  shows that configuration validation accepts \<open>back_threshold = 255\<close>.
\<close>

theorem back_threshold_255_raises:
  assumes "back_threshold (settings self) = 255"
  shows "extract_circles self peaks dist_map equalized_dist_map = Inl ZeroDivisionError \<and>
         extract_circles self [] dist_map equalized_dist_map = Inl ZeroDivisionError \<and>
         (\<exists>e. segment cv self image' = Inl e)"
  using assms
  by (simp add: extract_circles_255 segment_255)

theorem back_threshold_255_raises_witness:
  "construct_settings (default_settings\<lparr>back_threshold := 255\<rparr>)
     = Inr (default_settings\<lparr>back_threshold := 255\<rparr>) \<and>
   back_threshold (settings (MushroomSegmenter_init (default_settings\<lparr>back_threshold := 255\<rparr>)))
     = 255 \<and>
   extract_circles (MushroomSegmenter_init (default_settings\<lparr>back_threshold := 255\<rparr>))
     [(0, 0)] [[3]] [[3]] = Inl ZeroDivisionError \<and>
   extract_circles (MushroomSegmenter_init (default_settings\<lparr>back_threshold := 255\<rparr>))
     [] [[3]] [[3]] = Inl ZeroDivisionError \<and>
   (\<forall>cv. \<exists>e. segment cv (MushroomSegmenter_init (default_settings\<lparr>back_threshold := 255\<rparr>))
          [[(0, 0, 0)]] = Inl e)"
proof -
  have b: "back_threshold
             (settings (MushroomSegmenter_init (default_settings\<lparr>back_threshold := 255\<rparr>))) = 255"
    by (simp add: MushroomSegmenter_init_def)
  from back_threshold_255_raises [OF b] construct_default_with_back_threshold_255 b
  show ?thesis by blast
qed

section \<open>The Circle Extractor\<close>



lemma compensation_coeff_ok:
  "back_threshold (settings self) \<noteq> 255 \<Longrightarrow>
   compensation_coeff self = Inr (spec_coeff (settings self))"
  by (simp add: compensation_coeff_def py_truediv_def spec_coeff_def)















subsection \<open>The invariant of the returned circles\<close>







lemma fold_min_in: "fold min ds (d::'a::linorder) \<in> set (d # ds)"
  using Min_in[of "set (d # ds)"] by (simp only: Min.set_eq_fold[symmetric]) simp

lemma fold_max_in: "fold max ds (d::'a::linorder) \<in> set (d # ds)"
  using Max_in[of "set (d # ds)"] by (simp only: Max.set_eq_fold[symmetric]) simp

lemma chamfer_nonneg: "0 \<le> chamfer p q"
  by (simp add: chamfer_def Let_def)





section \<open>The pipeline on an example\<close>



lemma dot_settings_fields:
  "back_threshold (settings (MushroomSegmenter_init dot_settings)) = 100"
  "threshold (settings (MushroomSegmenter_init dot_settings)) = 150"
  "min_diameter (settings (MushroomSegmenter_init dot_settings)) = 2"
  "morphology_kernel_size (settings (MushroomSegmenter_init dot_settings)) = 1"
  "peaks_rel_threshold (settings (MushroomSegmenter_init dot_settings)) = 1 / 10"
  by (simp_all add: MushroomSegmenter_init_def dot_settings_def default_settings_def)































section \<open>The Background Remover\<close>

lemma rows_upt: "map (\<lambda>y. length (img ! y)) [0 ..< length img] = map length img"
  by (rule nth_equalityI) simp_all

lemma nth_nth_in_concat: "y < length img \<Longrightarrow> x < length (img ! y) \<Longrightarrow> img ! y ! x \<in> set (concat img)"
  by (auto intro!: bexI[of _ "img ! y"])

lemma cv_threshold_lengths: "map length (cv_threshold src t m) = map length src"
  by (simp add: cv_threshold_def comp_def)

lemma cv_threshold_values: "set (concat (cv_threshold src t m)) \<subseteq> {0, m}"
  by (auto simp: cv_threshold_def)

lemma kernel_window_values: "set (kernel_window k img y x) \<subseteq> set (concat img)"
proof
  fix v assume "v \<in> set (kernel_window k img y x)"
  then obtain yy xx where "0 \<le> yy" "yy < int (length img)" "0 \<le> xx"
    "xx < int (length (img ! nat yy))" "v = img ! nat yy ! nat xx"
    by (auto simp: kernel_window_def split: if_splits)
  then show "v \<in> set (concat img)"
    using nth_nth_in_concat[of "nat yy" img "nat xx"] by simp
qed

lemma erode_once_lengths: "map length (erode_once k img) = map length img"
  by (simp add: erode_once_def comp_def rows_upt)

lemma dilate_once_lengths: "map length (dilate_once k img) = map length img"
  by (simp add: dilate_once_def comp_def rows_upt)

lemma erode_once_values: "set (concat (erode_once k img)) \<subseteq> set (concat img)"
proof
  fix v assume "v \<in> set (concat (erode_once k img))"
  then obtain y x where yx: "y < length img" "x < length (img ! y)"
    and v: "v = fold min (kernel_window k img y x) (img ! y ! x)"
    by (auto simp: erode_once_def)
  from v fold_min_in[of "kernel_window k img y x" "img ! y ! x"]
  have "v = img ! y ! x \<or> v \<in> set (kernel_window k img y x)" by simp
  with yx show "v \<in> set (concat img)"
    using kernel_window_values nth_nth_in_concat by blast
qed

lemma dilate_once_values: "set (concat (dilate_once k img)) \<subseteq> set (concat img)"
proof
  fix v assume "v \<in> set (concat (dilate_once k img))"
  then obtain y x where yx: "y < length img" "x < length (img ! y)"
    and v: "v = fold max (kernel_window k img y x) (img ! y ! x)"
    by (auto simp: dilate_once_def)
  from v fold_max_in[of "kernel_window k img y x" "img ! y ! x"]
  have "v = img ! y ! x \<or> v \<in> set (kernel_window k img y x)" by simp
  with yx show "v \<in> set (concat img)"
    using kernel_window_values nth_nth_in_concat by blast
qed

lemma funpow_lengths:
  "(\<And>img. map length (f img) = map length img) \<Longrightarrow>
   map length (((f :: image \<Rightarrow> image) ^^ n) src) = map length src"
proof (induction n)
  case 0
  show ?case by simp
next
  case (Suc n)
  have "map length (f ((f ^^ n) src)) = map length ((f ^^ n) src)" by (rule Suc.prems)
  also have "\<dots> = map length src" by (rule Suc.IH) (rule Suc.prems)
  finally show ?case by simp
qed

lemma funpow_values:
  "(\<And>img. set (concat (f img)) \<subseteq> set (concat img)) \<Longrightarrow>
   set (concat ((f ^^ n) src)) \<subseteq> set (concat (src :: image))"
proof (induction n)
  case 0
  show ?case by simp
next
  case (Suc n)
  have "set (concat (f ((f ^^ n) src))) \<subseteq> set (concat ((f ^^ n) src))" by (rule Suc.prems)
  also have "\<dots> \<subseteq> set (concat src)" by (rule Suc.IH) (rule Suc.prems)
  finally show ?case by simp
qed

lemma cv_erode_lengths: "map length (cv_erode src k n) = map length src"
  unfolding cv_erode_def by (rule funpow_lengths) (rule erode_once_lengths)

lemma cv_dilate_lengths: "map length (cv_dilate src k n) = map length src"
  unfolding cv_dilate_def by (rule funpow_lengths) (rule dilate_once_lengths)

lemma cv_erode_values: "set (concat (cv_erode src k n)) \<subseteq> set (concat src)"
  unfolding cv_erode_def by (rule funpow_values) (rule erode_once_values)

lemma cv_dilate_values: "set (concat (cv_dilate src k n)) \<subseteq> set (concat src)"
  unfolding cv_dilate_def by (rule funpow_values) (rule dilate_once_values)

lemma cv_morphologyEx_OPEN_lengths: "map length (cv_morphologyEx_OPEN src k n) = map length src"
  by (simp add: cv_morphologyEx_OPEN_def cv_dilate_lengths cv_erode_lengths)

lemma cv_morphologyEx_OPEN_values: "set (concat (cv_morphologyEx_OPEN src k n)) \<subseteq> set (concat src)"
  unfolding cv_morphologyEx_OPEN_def using cv_dilate_values cv_erode_values by blast

lemma remove_background_lengths: "map length (remove_background self img) = map length img"
  by (simp add: remove_background_def Let_def cv_dilate_lengths cv_morphologyEx_OPEN_lengths
                cv_threshold_lengths)

lemma remove_background_values:
  "set (concat (remove_background self img))
     \<subseteq> set (concat (cv_threshold img (back_threshold (settings self)) 255))"
  unfolding remove_background_def Let_def
  using cv_dilate_values cv_morphologyEx_OPEN_values by blast

text \<open>
  C4. For every image and every configuration the mask that \<open>_remove_background\<close> returns
  has as many rows as its input, each row as long as the input's, and holds no value other
  than 0 and 255.
\<close>

theorem remove_background_binary_mask:
  "length (remove_background self img) = length img \<and>
   map length (remove_background self img) = map length img \<and>
   set (concat (remove_background self img)) \<subseteq> {0, 255}"
proof -
  have l: "map length (remove_background self img) = map length img"
    by (rule remove_background_lengths)
  then have "length (map length (remove_background self img)) = length (map length img)"
    by simp
  then have n: "length (remove_background self img) = length img" by simp
  have "set (concat (remove_background self img)) \<subseteq> {0, 255}"
    using remove_background_values[of self img]
      cv_threshold_values[of img "back_threshold (settings self)" 255] by blast
  with l n show ?thesis by simp
qed


section \<open>The Distance Mapper\<close>

lemma np_unique_card: "length (np_unique img) = card (set (concat img))"
  by (simp add: np_unique_def length_remdups_card_conv)

lemma cv_distanceTransform_lengths: "map length (cv_distanceTransform far img) = map length img"
  by (simp add: cv_distanceTransform_def comp_def rows_upt)

lemma cv_distanceTransform_nth:
  "y < length img \<Longrightarrow> x < length (img ! y) \<Longrightarrow>
   cv_distanceTransform far img ! y ! x = nearest_zero far img (int y, int x)"
  by (simp add: cv_distanceTransform_def)

lemma zero_pixels_mem:
  "y < length img \<Longrightarrow> x < length (img ! y) \<Longrightarrow> img ! y ! x = 0 \<Longrightarrow>
   (int y, int x) \<in> set (zero_pixels img)"
  by (auto simp: zero_pixels_def)

lemma chamfer_self: "chamfer p p = 0"
  by (simp add: chamfer_def)

lemma nearest_zero_at_zero:
  assumes "p \<in> set (zero_pixels img)"
  shows "nearest_zero far img p = 0"
proof -
  from assms have m: "0 \<in> set (map (chamfer p) (zero_pixels img))"
    using chamfer_self[of p] by force
  then obtain d ds where c: "map (chamfer p) (zero_pixels img) = d # ds"
    by (cases "map (chamfer p) (zero_pixels img)") auto
  have f: "fold min ds d = Min (set (d # ds))" by (simp only: Min.set_eq_fold)
  from m c have le: "Min (set (d # ds)) \<le> 0" by (simp only: Min_le List.finite_set)
  have ge: "0 \<le> Min (set (d # ds))"
  proof -
    have "Min (set (d # ds)) \<in> set (map (chamfer p) (zero_pixels img))"
      using Min_in[of "set (d # ds)"] c by simp
    then obtain q where "Min (set (d # ds)) = chamfer p q" by auto
    then show ?thesis by (simp add: chamfer_nonneg)
  qed
  from le ge have "Min (set (d # ds)) = 0" by (rule antisym)
  with f show ?thesis unfolding nearest_zero_def c by simp
qed

text \<open>
  C5. \<open>_compute_distance_transform\<close> thresholds its input at \<open>threshold\<close> exactly when
  the input holds more than two distinct values, and hands it on unchanged otherwise; the
  distance map has the shape of that binary image and is 0 at each of its zero pixels.
\<close>

theorem distance_mapper_binarizes:
  "(card (set (concat img)) > 2 \<longrightarrow>
      binarized self img = cv_threshold img (threshold (settings self)) 255) \<and>
   (\<not> card (set (concat img)) > 2 \<longrightarrow> binarized self img = img) \<and>
   compute_distance_transform cv self img
     = cv_distanceTransform (INIT_DIST cv) (binarized self img) \<and>
   map length (compute_distance_transform cv self img) = map length (binarized self img) \<and>
   (\<forall>y x. y < length (binarized self img) \<longrightarrow> x < length (binarized self img ! y) \<longrightarrow>
          binarized self img ! y ! x = 0 \<longrightarrow>
          compute_distance_transform cv self img ! y ! x = 0)"
proof -
  have b: "binarized self img =
             (if card (set (concat img)) > 2
              then cv_threshold img (threshold (settings self)) 255 else img)"
    by (simp add: binarized_def np_unique_card)
  have c: "compute_distance_transform cv self img
             = cv_distanceTransform (INIT_DIST cv) (binarized self img)"
    by (simp add: compute_distance_transform_def)
  have l: "map length (compute_distance_transform cv self img) = map length (binarized self img)"
    by (simp only: c cv_distanceTransform_lengths)
  have z: "compute_distance_transform cv self img ! y ! x = 0"
    if "y < length (binarized self img)" "x < length (binarized self img ! y)"
       "binarized self img ! y ! x = 0" for y x
    using that
    by (simp only: c cv_distanceTransform_nth nearest_zero_at_zero zero_pixels_mem)
  from b c l z show ?thesis by simp
qed

lemma levels_card: "card (set (concat levels_image)) = 3"
  by (simp add: levels_image_def card_set)

lemma levels_threshold: "cv_threshold levels_image 150 255 = [[0, 0, 255]]"
  by (simp add: cv_threshold_def levels_image_def)

lemma dot_card: "card (set (concat dot_gray)) = 2"
proof -
  have "set (concat dot_gray) = {0, 200}" by (auto simp: dot_gray_def)
  then show ?thesis by simp
qed

theorem distance_mapper_binarizes_witness:
  "card (set (concat levels_image)) > 2 \<and>
   binarized (MushroomSegmenter_init default_settings) levels_image = [[0, 0, 255]] \<and>
   \<not> card (set (concat dot_gray)) > 2 \<and>
   binarized (MushroomSegmenter_init default_settings) dot_gray = dot_gray \<and>
   (1::nat) < length (binarized (MushroomSegmenter_init default_settings) levels_image ! 0) \<and>
   binarized (MushroomSegmenter_init default_settings) levels_image ! 0 ! 1 = 0 \<and>
   compute_distance_transform cv_plain (MushroomSegmenter_init default_settings) levels_image
     ! 0 ! 1 = 0"
proof -
  let ?self = "MushroomSegmenter_init default_settings"
  have t: "threshold (settings ?self) = 150"
    by (simp add: MushroomSegmenter_init_def default_settings_def)
  have c3: "card (set (concat levels_image)) > 2" unfolding levels_card by simp
  have c2: "\<not> card (set (concat dot_gray)) > 2" unfolding dot_card by simp
  note th = distance_mapper_binarizes [of levels_image ?self cv_plain]
  note th' = distance_mapper_binarizes [of dot_gray ?self cv_plain]
  from th c3 have b: "binarized ?self levels_image = [[0, 0, 255]]"
    by (simp only: t levels_threshold)
  from th' c2 have b': "binarized ?self dot_gray = dot_gray" by blast
  have i: "(0::nat) < length (binarized ?self levels_image)"
    "(1::nat) < length (binarized ?self levels_image ! 0)"
    "binarized ?self levels_image ! 0 ! 1 = 0"
    by (simp_all add: b)
  from th i have "compute_distance_transform cv_plain ?self levels_image ! 0 ! 1 = 0"
    by blast
  with c3 c2 b b' i show ?thesis by blast
qed


section \<open>The Peak Finder\<close>

lemma sqdist_sym: "sqdist p q = sqdist q p"
  by (simp add: sqdist_def algebra_simps)

lemma closer_than_sym: "closer_than d p q \<longleftrightarrow> closer_than d q p"
  by (simp add: closer_than_def sqdist_sym)

lemma sqdist_nonneg: "0 \<le> sqdist p q"
  by (simp add: sqdist_def)

lemma not_closer_euclid:
  assumes "\<not> closer_than d p q"
  shows "real_of_int d \<le> euclid p q"
proof (cases "0 < d")
  case True
  with assms have "d * d \<le> sqdist p q" by (simp add: closer_than_def)
  then have "real_of_int (d * d) \<le> real_of_int (sqdist p q)" by (simp only: of_int_le_iff)
  then have "sqrt (real_of_int d * real_of_int d) \<le> sqrt (real_of_int (sqdist p q))"
    by (simp only: real_sqrt_le_iff of_int_mult)
  with True show ?thesis by (simp add: euclid_def)
next
  case False
  then have "real_of_int d \<le> 0" by simp
  also have "0 \<le> euclid p q" by (simp add: euclid_def sqdist_nonneg)
  finally show ?thesis .
qed

lemma suppress_separated:
  "sorted_wrt (\<lambda>p q. \<not> closer_than d p q) kept \<Longrightarrow>
   sorted_wrt (\<lambda>p q. \<not> closer_than d p q) (suppress d cs kept)"
proof (induction cs arbitrary: kept)
  case Nil
  then show ?case by simp
next
  case (Cons c cs)
  obtain p v where c: "c = (p, v)" by (cases c)
  show ?case
  proof (cases "\<exists>q \<in> set kept. closer_than d p q")
    case True
    with Cons c show ?thesis by simp
  next
    case False
    then have "\<forall>q \<in> set kept. \<not> closer_than d q p"
      using closer_than_sym by blast
    with Cons.prems have "sorted_wrt (\<lambda>p q. \<not> closer_than d p q) (kept @ [p])"
      by (simp add: sorted_wrt_append)
    from Cons.IH[OF this] False c show ?thesis by simp
  qed
qed

lemma suppress_subset: "set (suppress d cs kept) \<subseteq> set kept \<union> fst ` set cs"
proof (induction cs arbitrary: kept)
  case Nil
  show ?case by simp
next
  case (Cons c cs)
  obtain p v where c: "c = (p, v)" by (cases c)
  show ?case
  proof (cases "\<exists>q \<in> set kept. closer_than d p q")
    case True
    with Cons.IH[of kept] c show ?thesis by auto
  next
    case False
    with Cons.IH[of "kept @ [p]"] c show ?thesis by auto
  qed
qed

lemma pixels_mem:
  assumes "pv \<in> set (pixels dm)"
  shows "in_map dm (fst pv) \<and> snd pv = value_at dm (fst pv)"
  using assms by (auto simp: pixels_def in_map_def value_at_def)

lemma map_max_Max:
  assumes "concat dm \<noteq> []"
  shows "map_max dm = Max (set (concat dm))"
proof -
  from assms obtain v vs where c: "concat dm = v # vs" by (cases "concat dm") auto
  then have "map_max dm = fold max vs v" by (simp add: map_max_def)
  also have "\<dots> = Max (set (v # vs))" by (simp only: Max.set_eq_fold)
  finally show ?thesis by (simp only: c)
qed

lemma in_map_nonempty:
  assumes "in_map dm p"
  shows "concat dm \<noteq> []"
proof
  assume e: "concat dm = []"
  from assms have "nat (fst p) < length dm" "nat (snd p) < length (dm ! nat (fst p))"
    by (auto simp: in_map_def)
  then have "dm ! nat (fst p) ! nat (snd p) \<in> set (concat dm)" by (rule nth_nth_in_concat)
  then have "dm ! nat (fst p) ! nat (snd p) \<in> set []" by (simp only: e)
  then show False by simp
qed

text \<open>
  C3. In the sequence that \<open>_find_local_maxima\<close> returns, any two peaks are at Euclidean
  distance at least \<open>min_diameter\<close>, and every peak lies in the map with a value of at
  least \<open>peaks_rel_threshold\<close> times the maximum of the map.
\<close>

theorem peaks_separated_and_above_threshold:
  assumes "find_local_maxima self dm = ps"
  shows "(\<forall>i j. i < j \<longrightarrow> j < length ps \<longrightarrow>
            real_of_int (min_diameter (settings self)) \<le> euclid (ps ! i) (ps ! j)) \<and>
         (\<forall>p \<in> set ps. in_map dm p \<and>
            peaks_rel_threshold (settings self) * Max (set (concat dm)) \<le> value_at dm p)"
proof -
  let ?d = "min_diameter (settings self)" and ?rel = "peaks_rel_threshold (settings self)"
  let ?cs = "filter (is_candidate dm ?d ?rel) (pixels dm)"
  have ps: "ps = [] \<or> ps = suppress ?d ?cs []"
    using assms by (simp add: find_local_maxima_def corner_peaks_def split: if_splits)
  have "sorted_wrt (\<lambda>p q. \<not> closer_than ?d p q) (suppress ?d ?cs [])"
    by (rule suppress_separated) simp
  with ps have s: "sorted_wrt (\<lambda>p q. \<not> closer_than ?d p q) ps" by auto
  have sep: "real_of_int ?d \<le> euclid (ps ! i) (ps ! j)" if "i < j" "j < length ps" for i j
  proof -
    from s that have "\<not> closer_than ?d (ps ! i) (ps ! j)"
      by (simp add: sorted_wrt_iff_nth_less)
    then show ?thesis by (rule not_closer_euclid)
  qed
  have val: "in_map dm p \<and> ?rel * Max (set (concat dm)) \<le> value_at dm p"
    if "p \<in> set ps" for p
  proof -
    from that ps have "p \<in> set (suppress ?d ?cs [])" by auto
    with suppress_subset[of ?d ?cs "[]"] have "p \<in> fst ` set ?cs" by auto
    then obtain pv where pv: "pv \<in> set (pixels dm)" "is_candidate dm ?d ?rel pv" "p = fst pv"
      by auto
    from pixels_mem[OF pv(1)] pv(3) have m: "in_map dm p" and v: "snd pv = value_at dm p"
      by simp_all
    from pv(2) have "?rel * map_max dm \<le> snd pv" by (simp add: is_candidate_def)
    with v map_max_Max[OF in_map_nonempty[OF m]] m show ?thesis by simp
  qed
  from sep val show ?thesis by blast
qed

lemma two_peaks:
  "corner_peaks two_peaks_map 2 (1 / 10) = [(0, 0), (0, 4)]"
  unfolding two_peaks_map_def by code_simp

theorem peaks_separated_and_above_threshold_witness:
  "find_local_maxima (MushroomSegmenter_init dot_settings) two_peaks_map = [(0, 0), (0, 4)] \<and>
   real_of_int (min_diameter (settings (MushroomSegmenter_init dot_settings)))
     \<le> euclid (0, 0) (0, 4) \<and>
   in_map two_peaks_map (0, 4) \<and>
   peaks_rel_threshold (settings (MushroomSegmenter_init dot_settings))
     * Max (set (concat two_peaks_map)) \<le> value_at two_peaks_map (0, 4)"
proof -
  let ?self = "MushroomSegmenter_init dot_settings"
  have e: "find_local_maxima ?self two_peaks_map = [(0, 0), (0, 4)]"
    by (simp add: find_local_maxima_def dot_settings_fields two_peaks)
  note th = peaks_separated_and_above_threshold [OF e]
  from th have "(0::nat) < 1 \<longrightarrow> (1::nat) < length [(0, 0), (0, 4) :: peak] \<longrightarrow>
      real_of_int (min_diameter (settings ?self)) \<le> euclid ([(0, 0), (0, 4)] ! 0) ([(0, 0), (0, 4)] ! 1)"
    by blast
  then have s: "real_of_int (min_diameter (settings ?self)) \<le> euclid (0, 0) (0, 4)" by simp
  from th have "in_map two_peaks_map (0, 4) \<and>
      peaks_rel_threshold (settings ?self) * Max (set (concat two_peaks_map))
        \<le> value_at two_peaks_map (0, 4)" by simp
  with e s show ?thesis by simp
qed


section \<open>The all-black image\<close>

lemma cv_bitwise_and_zero:
  assumes "set (concat src) \<subseteq> {0}"
  shows "set (concat (cv_bitwise_and src src m)) \<subseteq> {0}"
proof -
  have z: "\<forall>r \<in> set src. \<forall>a \<in> set r. a = 0"
    using assms by auto
  show ?thesis
  proof
    fix v assume "v \<in> set (concat (cv_bitwise_and src src m))"
    then obtain r a b where r: "r \<in> set src" and a: "a \<in> set r"
      and v: "v = and a b \<or> v = 0"
      unfolding cv_bitwise_and_def
      by (fastforce split: if_splits dest!: set_zip_leftD)
    from z r a have "a = 0" by blast
    with v show "v \<in> {0}" by auto
  qed
qed

lemma binarized_zero:
  assumes "set (concat img) \<subseteq> {0}"
  shows "binarized self img = img"
proof -
  have "card (set (concat img)) \<le> card {0::nat}" using assms by (intro card_mono) auto
  then show ?thesis by (simp add: binarized_def np_unique_card)
qed

lemma cv_distanceTransform_zero:
  assumes "set (concat img) \<subseteq> {0}"
  shows "set (concat (cv_distanceTransform far img)) \<subseteq> {0}"
proof
  fix v assume "v \<in> set (concat (cv_distanceTransform far img))"
  then obtain y x where yx: "y < length img" "x < length (img ! y)"
    and v: "v = nearest_zero far img (int y, int x)"
    by (auto simp: cv_distanceTransform_def)
  from yx have "img ! y ! x \<in> set (concat img)" by (rule nth_nth_in_concat)
  with assms have "img ! y ! x = 0" by auto
  with yx have "(int y, int x) \<in> set (zero_pixels img)" by (simp add: zero_pixels_mem)
  then show "v \<in> {0}" by (simp add: v nearest_zero_at_zero)
qed

lemma compute_distance_transform_zero:
  assumes "set (concat img) \<subseteq> {0}"
  shows "set (concat (compute_distance_transform cv self img)) \<subseteq> {0}"
  unfolding compute_distance_transform_def Let_def binarized_zero[OF assms]
  using assms by (rule cv_distanceTransform_zero)

lemma find_local_maxima_zero:
  assumes "set (concat dm) \<subseteq> {0}"
  shows "find_local_maxima self dm = []"
proof -
  from assms have "\<forall>v \<in> set (concat dm). v = 0" by blast
  then show ?thesis unfolding find_local_maxima_def corner_peaks_def by (rule if_P)
qed

lemma extract_circles_no_peaks:
  "extract_circles self [] dm edm =
     (if back_threshold (settings self) = 255 then Inl ZeroDivisionError else Inr [])"
  by (simp add: extract_circles_def compensation_coeff_255 compensation_coeff_ok)

text \<open>
  C6. When preprocessing yields an all-zero image and histogram equalization maps all-zero
  images to all-zero images, \<open>segment\<close> finds no peak; it then returns the empty circle
  list, except for \<open>back_threshold = 255\<close>, where \<open>_extract_circles\<close> raises
  \<open>ZeroDivisionError\<close> although there is no peak to examine. The Peak Finder returns the
  empty sequence on every all-zero distance map.
\<close>

theorem all_black_image:
  assumes "preprocess_image cv self img = Inr pre"
    and "set (concat pre) \<subseteq> {0}"
    and "\<And>m. set (concat m) \<subseteq> {0} \<Longrightarrow>
           \<exists>e. CLAHE_apply cv (clahe self) m = Inr e \<and> set (concat e) \<subseteq> {0}"
  shows "segment cv self img =
           (if back_threshold (settings self) = 255 then Inl ZeroDivisionError else Inr []) \<and>
         (\<forall>dm. set (concat dm) \<subseteq> {0} \<longrightarrow> find_local_maxima self dm = [])"
proof -
  let ?masked = "cv_bitwise_and pre pre (remove_background self pre)"
  have m: "set (concat ?masked) \<subseteq> {0}" using assms(2) by (rule cv_bitwise_and_zero)
  from assms(3)[OF m] obtain e where e: "CLAHE_apply cv (clahe self) ?masked = Inr e"
    and z: "set (concat e) \<subseteq> {0}" by blast
  have "set (concat (compute_distance_transform cv self e)) \<subseteq> {0}"
    using z by (rule compute_distance_transform_zero)
  then have p: "find_local_maxima self (compute_distance_transform cv self e) = []"
    by (rule find_local_maxima_zero)
  have "segment cv self img =
          (if back_threshold (settings self) = 255 then Inl ZeroDivisionError else Inr [])"
    by (simp add: segment_def assms(1) e p Let_def extract_circles_no_peaks)
  moreover have "\<forall>dm. set (concat dm) \<subseteq> {0} \<longrightarrow> find_local_maxima self dm = []"
    using find_local_maxima_zero by blast
  ultimately show ?thesis ..
qed

lemma construct_settings_255: "construct_settings settings_255 = Inr settings_255"
  unfolding settings_255_def by (rule construct_default_with_back_threshold_255)

lemma black_preprocess:
  "preprocess_image cv_plain (MushroomSegmenter_init s) black_image = Inr [[0]]"
  by (simp add: preprocess_image_def cv_plain_def black_image_def)

lemma cv_plain_CLAHE:
  "set (concat m) \<subseteq> {0} \<Longrightarrow>
   \<exists>e. CLAHE_apply cv_plain c m = Inr e \<and> set (concat e) \<subseteq> {0}"
  by (simp add: cv_plain_def)

theorem all_black_image_witness:
  "construct_settings settings_255 = Inr settings_255 \<and>
   preprocess_image cv_plain (MushroomSegmenter_init settings_255) black_image = Inr [[0]] \<and>
   segment cv_plain (MushroomSegmenter_init settings_255) black_image = Inl ZeroDivisionError \<and>
   segment cv_plain (MushroomSegmenter_init default_settings) black_image = Inr [] \<and>
   find_local_maxima (MushroomSegmenter_init settings_255) [[0]] = []"
proof -
  have z: "set (concat [[0::nat]]) \<subseteq> {0}" by simp
  have b: "back_threshold (settings (MushroomSegmenter_init settings_255)) = 255"
    by (simp add: MushroomSegmenter_init_def settings_255_def)
  have d: "back_threshold (settings (MushroomSegmenter_init default_settings)) \<noteq> 255"
    by (simp add: MushroomSegmenter_init_def default_settings_def)
  note f = all_black_image [OF black_preprocess z cv_plain_CLAHE, of settings_255]
  note g = all_black_image [OF black_preprocess z cv_plain_CLAHE, of default_settings]
  from f b have 1: "segment cv_plain (MushroomSegmenter_init settings_255) black_image
      = Inl ZeroDivisionError" by simp
  from g d have 2: "segment cv_plain (MushroomSegmenter_init default_settings) black_image
      = Inr []" by simp
  from f have 3: "find_local_maxima (MushroomSegmenter_init settings_255) [[0]] = []" by simp
  from construct_settings_255 black_preprocess 1 2 3 show ?thesis by simp
qed


section \<open>A negative radius\<close>



























end
